theory Spec2Isabelle
  imports Complex_Main "HOL-Library.AList"
begin

section \<open>NOC dashboards: summary statistics\<close>

text \<open>
  The two NOC dashboards (\<open>NOCManagement\<close> for teachers, \<open>StudentNOCView\<close> for students)
  receive a list of \<open>NocDetailRow\<close> objects from the backend and derive four counters
  from it in a \<open>useMemo\<close> block named \<open>summaryStats\<close>.

  \<open>NocStatus\<close> is the union of the string literals of both components (the teacher's
  component does not list "Pending Verification").
\<close>

datatype NocStatus = Pending | Completed | Granted | Refused | Pending_Verification

datatype NocType = Theory | Lab | Tutorial

record StudentOut =
  student_id :: int
  student_name :: string
  roll_number :: "string option"

record NocComponentStatus =
  status :: string
  is_applicable :: bool

record NocDetailRow =
  status_record_id :: int
  student :: StudentOut
  noc_type :: NocType
  attendance :: NocComponentStatus
  cie :: NocComponentStatus
  home_assignment :: NocComponentStatus
  assignments_component :: NocComponentStatus
  defaulter_assignment :: NocComponentStatus
  sce_status :: NocComponentStatus
  noc_status :: NocStatus
  is_updatable :: bool

text \<open>
  The field \<open>assignments\<close> of a row is \<open>assignments_component\<close> here: \<open>assignments\<close> is the
  state of the assignment page below. The student's view of a row carries the subject's
  name as well.
\<close>

record StudentNocDetailRow = NocDetailRow +
  subject :: string

text \<open>
  The value kept per student in the \<open>Map\<close> of \<open>NOCManagement.summaryStats\<close>.
\<close>

record StudentStatus =
  isGranted :: bool
  isRefused :: bool

text \<open>
  The result object; \<open>total\<close> is \<open>totalStudents\<close> in the teacher's dashboard and
  \<open>totalSubjects\<close> in the student's. The counters are JavaScript numbers; \<open>pendingNOCs\<close>
  is computed by subtraction, so they are integers here.
\<close>

record SummaryStats =
  total :: int
  grantedNOCs :: int
  refusedNOCs :: int
  pendingNOCs :: int

subsection \<open>NOCManagement.summaryStats\<close>

text \<open>
  A JavaScript \<open>Map\<close> keeps its entries in insertion order and \<open>set\<close> on an existing
  key replaces the value in place: an association list with \<^const>\<open>AList.update\<close>.
  The body of \<open>nocData.forEach\<close>: create the entry \<open>{isGranted: true, isRefused: false}\<close>
  when the student has none, then mutate the entry.
\<close>

definition record_row ::
  "(int \<times> StudentStatus) list \<Rightarrow> 'a NocDetailRow_scheme \<Rightarrow> (int \<times> StudentStatus) list" where
  "record_row studentStatuses rec =
    (let k = student_id (student rec);
         m = (if map_of studentStatuses k = None
              then AList.update k \<lparr>isGranted = True, isRefused = False\<rparr> studentStatuses
              else studentStatuses)
     in case map_of m k of
          None \<Rightarrow> m
        | Some st \<Rightarrow>
            (let st1 = (if noc_status rec \<noteq> Granted then st\<lparr>isGranted := False\<rparr> else st);
                 st2 = (if noc_status rec = Refused then st1\<lparr>isRefused := True\<rparr> else st1)
             in AList.update k st2 m))"

definition studentStatuses_of ::
  "'a NocDetailRow_scheme list \<Rightarrow> (int \<times> StudentStatus) list" where
  "studentStatuses_of nocData = foldl record_row [] nocData"

text \<open>The body of \<open>studentStatuses.forEach\<close>, on the pair \<open>(granted, refused)\<close>.\<close>

definition count_status :: "int \<times> int \<Rightarrow> StudentStatus \<Rightarrow> int \<times> int" where
  "count_status c s =
    (if isRefused s then (fst c, snd c + 1)
     else if isGranted s then (fst c + 1, snd c)
     else c)"

definition summaryStats_teacher :: "'a NocDetailRow_scheme list \<Rightarrow> SummaryStats" where
  "summaryStats_teacher nocData =
    (let studentStatuses = studentStatuses_of nocData;
         c = foldl count_status (0, 0) (map snd studentStatuses);
         size = int (length studentStatuses)
     in \<lparr>total = size,
         grantedNOCs = fst c,
         refusedNOCs = snd c,
         pendingNOCs = size - fst c - snd c\<rparr>)"

subsection \<open>StudentNOCView.summaryStats\<close>

text \<open>
  \<open>new Set(xs)\<close>: the distinct elements of \<open>xs\<close> in the order of their first occurrence.
\<close>

definition Set_add :: "'a list \<Rightarrow> 'a \<Rightarrow> 'a list" where
  "Set_add s x = (if x \<in> set s then s else s @ [x])"

definition new_Set :: "'a list \<Rightarrow> 'a list" where
  "new_Set xs = foldl Set_add [] xs"

text \<open>The body of \<open>subjectIds.forEach\<close>, on the pair \<open>(grantedCount, refusedCount)\<close>.\<close>

definition count_subject ::
  "'a NocDetailRow_scheme list \<Rightarrow> int \<times> int \<Rightarrow> int \<Rightarrow> int \<times> int" where
  "count_subject nocData c i =
    (let subjectRecords = filter (\<lambda>rec. status_record_id rec = i) nocData;
         isGranted = list_all (\<lambda>rec. noc_status rec = Granted) subjectRecords;
         isRefused = list_ex (\<lambda>rec. noc_status rec = Refused) subjectRecords
     in if isRefused then (fst c, snd c + 1)
        else if isGranted then (fst c + 1, snd c)
        else c)"

definition summaryStats_student :: "'a NocDetailRow_scheme list \<Rightarrow> SummaryStats" where
  "summaryStats_student nocData =
    (let subjectIds = new_Set (map status_record_id nocData);
         c = foldl (count_subject nocData) (0, 0) subjectIds;
         size = int (length subjectIds)
     in \<lparr>total = size,
         grantedNOCs = fst c,
         refusedNOCs = snd c,
         pendingNOCs = size - fst c - snd c\<rparr>)"

subsection \<open>The classification the dashboards are meant to show\<close>

text \<open>
  Stated on the rows themselves: a key (a student, or a subject's status record) is
  refused when one of its rows is refused, granted when all of its rows are granted, and
  pending otherwise.
\<close>

definition keys_of :: "('r \<Rightarrow> int) \<Rightarrow> 'r list \<Rightarrow> int set" where
  "keys_of key rows = key ` set rows"

definition refused_key :: "('a NocDetailRow_scheme \<Rightarrow> int) \<Rightarrow> 'a NocDetailRow_scheme list \<Rightarrow> int \<Rightarrow> bool" where
  "refused_key key rows k = list_ex (\<lambda>r. key r = k \<and> noc_status r = Refused) rows"

definition granted_key :: "('a NocDetailRow_scheme \<Rightarrow> int) \<Rightarrow> 'a NocDetailRow_scheme list \<Rightarrow> int \<Rightarrow> bool" where
  "granted_key key rows k =
    (list_all (\<lambda>r. key r = k \<longrightarrow> noc_status r = Granted) rows \<and> \<not> refused_key key rows k)"

definition pending_key :: "('a NocDetailRow_scheme \<Rightarrow> int) \<Rightarrow> 'a NocDetailRow_scheme list \<Rightarrow> int \<Rightarrow> bool" where
  "pending_key key rows k = (\<not> refused_key key rows k \<and> \<not> granted_key key rows k)"

text \<open>
  What the claim says of a result object \<open>S\<close> computed from \<open>rows\<close> grouped by \<open>key\<close>:
  each counter is the number of keys of its class, the three classes add up to the
  total, and the pending counter is not negative.
\<close>

definition classifies :: "('a NocDetailRow_scheme \<Rightarrow> int) \<Rightarrow> 'a NocDetailRow_scheme list \<Rightarrow> SummaryStats \<Rightarrow> bool" where
  "classifies key rows S =
    (total S = int (card (keys_of key rows)) \<and>
     refusedNOCs S = int (card {k. k \<in> keys_of key rows \<and> refused_key key rows k}) \<and>
     grantedNOCs S = int (card {k. k \<in> keys_of key rows \<and> granted_key key rows k}) \<and>
     pendingNOCs S = int (card {k. k \<in> keys_of key rows \<and> pending_key key rows k}) \<and>
     grantedNOCs S + refusedNOCs S + pendingNOCs S = total S \<and>
     0 \<le> pendingNOCs S)"

text \<open>
  The loop invariant of \<open>nocData.forEach\<close>: after the rows \<open>xs\<close> the map has one entry
  per student of \<open>xs\<close>, and the entry says whether all of the student's rows are granted
  and whether one of them is refused.
\<close>

definition statuses_inv :: "(int \<times> StudentStatus) list \<Rightarrow> 'a NocDetailRow_scheme list \<Rightarrow> bool" where
  "statuses_inv m xs =
    (distinct (map fst m) \<and>
     (\<forall>k. map_of m k =
        (if k \<in> keys_of (\<lambda>r. student_id (student r)) xs
         then Some \<lparr>isGranted = list_all (\<lambda>r. student_id (student r) = k \<longrightarrow> noc_status r = Granted) xs,
                    isRefused = refused_key (\<lambda>r. student_id (student r)) xs k\<rparr>
         else None)))"

text \<open>Rows used to run both dashboards on a concrete input.\<close>

definition example_row :: "int \<Rightarrow> int \<Rightarrow> NocType \<Rightarrow> NocStatus \<Rightarrow> NocDetailRow" where
  "example_row rid sid ty st =
    \<lparr>status_record_id = rid,
     student = \<lparr>student_id = sid, student_name = ''S'', roll_number = None\<rparr>,
     noc_type = ty,
     attendance = \<lparr>status = ''80%'', is_applicable = True\<rparr>,
     cie = \<lparr>status = ''Completed'', is_applicable = True\<rparr>,
     home_assignment = \<lparr>status = ''N/A'', is_applicable = False\<rparr>,
     assignments_component = \<lparr>status = ''Completed'', is_applicable = True\<rparr>,
     defaulter_assignment = \<lparr>status = ''N/A'', is_applicable = False\<rparr>,
     sce_status = \<lparr>status = ''Pending'', is_applicable = True\<rparr>,
     noc_status = st,
     is_updatable = True\<rparr>"

definition example_rows :: "NocDetailRow list" where
  "example_rows =
    [example_row 10 1 Theory Granted, example_row 11 2 Theory Granted,
     example_row 10 1 Lab Granted, example_row 11 2 Lab Pending,
     example_row 12 3 Theory Refused, example_row 12 3 Lab Granted]"

subsection \<open>Counting lemmas\<close>

lemma count_fold:
  "foldl (\<lambda>c x. if R x then (fst c, snd c + 1) else if G x then (fst c + 1, snd c) else c) c xs =
     (fst c + int (length (filter (\<lambda>x. \<not> R x \<and> G x) xs)), snd c + int (length (filter R xs)))"
  by (induction xs arbitrary: c) auto

lemma three_way_length:
  "length (filter R xs) + length (filter (\<lambda>x. \<not> R x \<and> G x) xs) +
     length (filter (\<lambda>x. \<not> R x \<and> \<not> (\<not> R x \<and> G x)) xs) = length xs"
  by (induction xs) auto

lemma distinct_filter_card:
  "distinct ks \<Longrightarrow> length (filter P ks) = card {k. k \<in> set ks \<and> P k}"
proof -
  assume d: "distinct ks"
  have "length (filter P ks) = card (set (filter P ks))"
    using distinct_card[OF distinct_filter[OF d, of P]] by simp
  moreover have "set (filter P ks) = {k. k \<in> set ks \<and> P k}" by auto
  ultimately show ?thesis by (simp only:)
qed

lemma classifies_from_keys:
  assumes d: "distinct ks" and s: "set ks = keys_of key rows"
    and t: "total S = int (length ks)"
    and r: "refusedNOCs S = int (length (filter (refused_key key rows) ks))"
    and g: "grantedNOCs S = int (length (filter (\<lambda>k. \<not> refused_key key rows k \<and> granted_key key rows k) ks))"
    and p: "pendingNOCs S = total S - grantedNOCs S - refusedNOCs S"
  shows "classifies key rows S"
proof -
  let ?R = "refused_key key rows" and ?G = "granted_key key rows"
  have tw: "length (filter ?R ks) + length (filter (\<lambda>x. \<not> ?R x \<and> ?G x) ks) +
     length (filter (\<lambda>x. \<not> ?R x \<and> \<not> (\<not> ?R x \<and> ?G x)) ks) = length ks"
    by (rule three_way_length)
  have pk: "(\<lambda>x. \<not> ?R x \<and> \<not> (\<not> ?R x \<and> ?G x)) = pending_key key rows"
    by (auto simp: pending_key_def fun_eq_iff)
  have gk: "(\<lambda>x. \<not> ?R x \<and> ?G x) = ?G"
    by (auto simp: granted_key_def fun_eq_iff)
  have pl: "pendingNOCs S = int (length (filter (pending_key key rows) ks))"
    using tw p t r g unfolding pk by linarith
  show ?thesis
    unfolding classifies_def
    using d s t r g pl p
    by (simp add: distinct_filter_card[OF d, symmetric] distinct_card[symmetric] gk)
qed

subsection \<open>The teacher's dashboard\<close>

lemma statuses_inv_Nil: "statuses_inv [] []"
  by (simp add: statuses_inv_def keys_of_def)

lemma statuses_inv_step:
  assumes "statuses_inv m xs"
  shows "statuses_inv (record_row m x) (xs @ [x])"
proof -
  let ?k = "student_id (student x)"
  from assms have d: "distinct (map fst m)" by (simp add: statuses_inv_def)
  show ?thesis
  proof (cases "map_of m ?k")
    case None
    with assms have nk: "?k \<notin> keys_of (\<lambda>r. student_id (student r)) xs"
      by (auto simp: statuses_inv_def split: if_splits)
    then have no: "\<And>r. r \<in> set xs \<Longrightarrow> student_id (student r) \<noteq> ?k"
      by (auto simp: keys_of_def image_iff)
    show ?thesis
      using assms None no
      unfolding statuses_inv_def record_row_def Let_def
      by (auto simp: update_conv' distinct_update keys_of_def refused_key_def list_all_iff list_ex_iff)
  next
    case (Some st)
    with assms have ik: "?k \<in> keys_of (\<lambda>r. student_id (student r)) xs"
      by (auto simp: statuses_inv_def split: if_splits)
    show ?thesis
      using assms Some ik
      unfolding statuses_inv_def record_row_def Let_def
      by (auto simp: update_conv' distinct_update keys_of_def refused_key_def list_all_iff list_ex_iff)
  qed
qed

lemma statuses_inv_fold: "statuses_inv (studentStatuses_of rows) rows"
  unfolding studentStatuses_of_def
  by (induction rows rule: rev_induct) (simp_all add: statuses_inv_Nil statuses_inv_step)

lemma count_status_fold:
  "foldl count_status c ss =
     (fst c + int (length (filter (\<lambda>s. \<not> isRefused s \<and> isGranted s) ss)),
      snd c + int (length (filter isRefused ss)))"
proof -
  have eq: "count_status = (\<lambda>c s. if isRefused s then (fst c, snd c + 1)
     else if isGranted s then (fst c + 1, snd c) else c)"
    by (simp add: fun_eq_iff count_status_def)
  show ?thesis unfolding eq by (rule count_fold)
qed

lemma statuses_inv_entry:
  assumes "statuses_inv m xs" and "p \<in> set m"
  shows "isRefused (snd p) = refused_key (\<lambda>r. student_id (student r)) xs (fst p)"
    and "(\<not> isRefused (snd p) \<and> isGranted (snd p)) =
         (\<not> refused_key (\<lambda>r. student_id (student r)) xs (fst p) \<and>
          granted_key (\<lambda>r. student_id (student r)) xs (fst p))"
proof -
  from assms have "distinct (map fst m)" and "(fst p, snd p) \<in> set m"
    by (simp_all add: statuses_inv_def)
  then have "map_of m (fst p) = Some (snd p)"
    by (simp only: map_of_eq_Some_iff)
  with assms(1) have e: "snd p =
      \<lparr>isGranted = list_all (\<lambda>r. student_id (student r) = fst p \<longrightarrow> noc_status r = Granted) xs,
       isRefused = refused_key (\<lambda>r. student_id (student r)) xs (fst p)\<rparr>"
    by (auto simp: statuses_inv_def split: if_splits)
  show "isRefused (snd p) = refused_key (\<lambda>r. student_id (student r)) xs (fst p)"
    by (subst e) simp
  show "(\<not> isRefused (snd p) \<and> isGranted (snd p)) =
         (\<not> refused_key (\<lambda>r. student_id (student r)) xs (fst p) \<and>
          granted_key (\<lambda>r. student_id (student r)) xs (fst p))"
    by (subst (1 2) e) (auto simp: granted_key_def)
qed

lemma statuses_inv_keys:
  assumes "statuses_inv m xs"
  shows "set (map fst m) = keys_of (\<lambda>r. student_id (student r)) xs"
proof -
  have "set (map fst m) = dom (map_of m)" by (simp add: dom_map_of_conv_image_fst)
  also have "\<dots> = keys_of (\<lambda>r. student_id (student r)) xs"
    using assms by (auto simp: statuses_inv_def dom_def)
  finally show ?thesis .
qed

lemma length_filter_snd_fst:
  assumes "\<And>p. p \<in> set m \<Longrightarrow> P (snd p) = Q (fst p)"
  shows "length (filter P (map snd m)) = length (filter Q (map fst m))"
  using assms by (induction m) auto

lemma summaryStats_teacher_classifies:
  "classifies (\<lambda>r. student_id (student r)) rows (summaryStats_teacher rows)"
proof (rule classifies_from_keys[where ks = "map fst (studentStatuses_of rows)"])
  let ?m = "studentStatuses_of rows"
  let ?R = "refused_key (\<lambda>r. student_id (student r)) rows"
  let ?G = "granted_key (\<lambda>r. student_id (student r)) rows"
  note inv = statuses_inv_fold[of rows]
  have r: "length (filter isRefused (map snd ?m)) = length (filter ?R (map fst ?m))"
    by (rule length_filter_snd_fst) (rule statuses_inv_entry(1)[OF inv])
  have g: "length (filter (\<lambda>s. \<not> isRefused s \<and> isGranted s) (map snd ?m)) =
      length (filter (\<lambda>k. \<not> ?R k \<and> ?G k) (map fst ?m))"
    by (rule length_filter_snd_fst) (rule statuses_inv_entry(2)[OF inv])
  show "distinct (map fst ?m)"
    using inv by (simp add: statuses_inv_def)
  show "set (map fst ?m) = keys_of (\<lambda>r. student_id (student r)) rows"
    by (rule statuses_inv_keys[OF inv])
  show "total (summaryStats_teacher rows) = int (length (map fst ?m))"
    by (simp add: summaryStats_teacher_def Let_def)
  show "refusedNOCs (summaryStats_teacher rows) = int (length (filter ?R (map fst ?m)))"
    unfolding r[symmetric]
    by (simp add: summaryStats_teacher_def Let_def count_status_fold)
  show "grantedNOCs (summaryStats_teacher rows) =
      int (length (filter (\<lambda>k. \<not> ?R k \<and> ?G k) (map fst ?m)))"
    unfolding g[symmetric]
    by (simp add: summaryStats_teacher_def Let_def count_status_fold)
  show "pendingNOCs (summaryStats_teacher rows) =
      total (summaryStats_teacher rows) - grantedNOCs (summaryStats_teacher rows) -
      refusedNOCs (summaryStats_teacher rows)"
    by (simp add: summaryStats_teacher_def Let_def)
qed

subsection \<open>The student's dashboard\<close>

lemma Set_add_fold:
  "distinct s \<Longrightarrow> distinct (foldl Set_add s xs) \<and> set (foldl Set_add s xs) = set s \<union> set xs"
  by (induction xs arbitrary: s) (auto simp: Set_add_def)

lemma new_Set_distinct: "distinct (new_Set xs)"
  using Set_add_fold[of "[]" xs] by (simp add: new_Set_def)

lemma new_Set_set: "set (new_Set xs) = set xs"
  using Set_add_fold[of "[]" xs] by (simp add: new_Set_def)

lemma count_subject_fold:
  "foldl (count_subject rows) c ks =
     (fst c + int (length (filter (\<lambda>k. \<not> refused_key status_record_id rows k \<and>
                                         granted_key status_record_id rows k) ks)),
      snd c + int (length (filter (refused_key status_record_id rows) ks)))"
proof -
  have r: "\<And>i. list_ex (\<lambda>rec. noc_status rec = Refused) (filter (\<lambda>rec. status_record_id rec = i) rows)
      = refused_key status_record_id rows i"
    by (auto simp: refused_key_def list_ex_iff)
  have g: "\<And>i. list_all (\<lambda>rec. noc_status rec = Granted) (filter (\<lambda>rec. status_record_id rec = i) rows)
      = list_all (\<lambda>r. status_record_id r = i \<longrightarrow> noc_status r = Granted) rows"
    by (auto simp: list_all_iff)
  have "count_subject rows = (\<lambda>c i. if refused_key status_record_id rows i then (fst c, snd c + 1)
     else if granted_key status_record_id rows i then (fst c + 1, snd c) else c)"
    by (auto simp: fun_eq_iff count_subject_def Let_def r g granted_key_def)
  then show ?thesis
    by (simp only: count_fold)
qed

lemma summaryStats_student_classifies:
  "classifies status_record_id rows (summaryStats_student rows)"
proof (rule classifies_from_keys[where ks = "new_Set (map status_record_id rows)"])
  show "distinct (new_Set (map status_record_id rows))" by (rule new_Set_distinct)
  show "set (new_Set (map status_record_id rows)) = keys_of status_record_id rows"
    by (simp add: new_Set_set keys_of_def)
qed (simp_all add: summaryStats_student_def Let_def count_subject_fold)

subsection \<open>Both dashboards partition their population\<close>

text \<open>
  Claim C8. In both dashboards the counters granted, refused and pending add up to the
  number of students (respectively subjects); a student or subject is counted as refused
  when one of its rows is refused, as granted when all of its rows are granted and none
  is refused, and as pending otherwise; the pending counter is never negative.
\<close>

theorem summaryStats_partition:
  "classifies (\<lambda>r. student_id (student r)) rows (summaryStats_teacher rows) \<and>
   classifies status_record_id rows' (summaryStats_student rows')"
  using summaryStats_teacher_classifies summaryStats_student_classifies by blast

text \<open>Both dashboards on the example rows: three keys, one of each class.\<close>

lemma ex_teacher: "summaryStats_teacher example_rows =
     \<lparr>total = 3, grantedNOCs = 1, refusedNOCs = 1, pendingNOCs = 1\<rparr>"
  by (simp add: summaryStats_teacher_def studentStatuses_of_def record_row_def count_status_def
        example_rows_def example_row_def Let_def)

lemma ex_student: "summaryStats_student example_rows =
     \<lparr>total = 3, grantedNOCs = 1, refusedNOCs = 1, pendingNOCs = 1\<rparr>"
  by (simp add: summaryStats_student_def new_Set_def Set_add_def count_subject_def
        example_rows_def example_row_def Let_def)

theorem summaryStats_partition_witness:
  "classifies (\<lambda>r. student_id (student r)) example_rows
     \<lparr>total = 3, grantedNOCs = 1, refusedNOCs = 1, pendingNOCs = 1\<rparr> \<and>
   classifies status_record_id example_rows
     \<lparr>total = 3, grantedNOCs = 1, refusedNOCs = 1, pendingNOCs = 1\<rparr>"
  using summaryStats_partition[of example_rows example_rows]
  by (simp only: ex_teacher ex_student)

section \<open>LoginPage: the submit handler\<close>



text \<open>
  An awaited call either rejects (\<open>Throws\<close>, with the \<open>message\<close> of the error) or
  resolves to a value.
\<close>

datatype 'a awaited = Throws string | Returns 'a




text \<open>A \<open>fetch\<close> response: its \<open>ok\<close> flag and what \<open>await response.json()\<close> gives.\<close>

record 'b Response =
  ok :: bool
  json :: "'b awaited"










subsection \<open>The role check\<close>





section \<open>AssignmentManagement: grading a submission\<close>

text \<open>
  The types of the teacher's assignment page. Field names carry the name of their
  interface where two interfaces share one (\<open>id\<close>, \<open>name\<close>, \<open>status\<close>, \<open>user\<close>, ...).
  \<open>marks\<close> is a JavaScript number that the backend may send with a fraction (the page
  rounds it), or leave out: \<open>None\<close> stands for both \<open>undefined\<close> and \<open>null\<close>.
\<close>

record User =
  user_id :: int
  user_email :: string
  user_role :: string

record Student =
  stu_id :: int
  stu_name :: string
  stu_roll_number :: "string option"
  stu_user :: User

record Teacher =
  teacher_id :: int
  teacher_name :: string
  teacher_user :: User

record Department =
  department_id :: int
  department_name :: string

record Division =
  division_id :: int
  division_name :: string
  division_department :: Department

record Batch =
  batch_id :: int
  batch_name :: string

record Subject =
  subject_id :: int
  subject_name :: string
  subject_department :: Department
  subject_year :: string

record Submission =
  submission_id :: int
  submission_student :: Student
  submitted_at :: string
  submission_status :: string
  marks :: "real option"
  feedback :: "string option"
  file_path :: "string option"

datatype AssignmentStatus = draft | published

record Assignment =
  assignment_id :: int
  title :: string
  description :: "string option"
  assignment_subject :: Subject
  assignment_division :: Division
  assignment_batch :: "Batch option"
  deadline :: string
  created_at :: string
  max_marks :: int
  instructions :: "string option"
  assignment_status :: AssignmentStatus
  assignment_teacher :: Teacher
  assignment_type :: string
  submissions :: "Submission list"
  assignment_file_path :: "string option"
  solution_file_path :: "string option"

text \<open>
  The part of the component's state that grading reads and writes. \<open>feedback_input\<close> is
  the state variable \<open>feedback\<close> of the dialog; \<open>grade\<close> only ever receives the result of
  \<open>parseInt(...) || 0\<close> or of \<open>Math.round\<close>, an integer.
\<close>

record GradingState =
  assignments :: "Assignment list"
  selectedAssignmentForDetail :: "Assignment option"
  showGradeDialog :: bool
  selectedSubmission :: "Submission option"
  grade :: int
  feedback_input :: string

text \<open>
  The updater passed to \<open>setAssignments\<close> in step 1 of \<open>handleGradeSubmission\<close>, for the
  selected assignment's id \<open>aid\<close> and the selected submission's id \<open>sid\<close>.
\<close>

definition grade_in_submissions :: "int \<Rightarrow> int \<Rightarrow> string \<Rightarrow> Submission list \<Rightarrow> Submission list" where
  "grade_in_submissions sid g fb subs =
    map (\<lambda>sub. if submission_id sub \<noteq> sid then sub
               else sub\<lparr>marks := Some (of_int g), feedback := Some fb\<rparr>) subs"

definition optimistic_update :: "int \<Rightarrow> int \<Rightarrow> int \<Rightarrow> string \<Rightarrow> Assignment list \<Rightarrow> Assignment list" where
  "optimistic_update aid sid g fb prevAssignments =
    map (\<lambda>assignment.
          if assignment_id assignment \<noteq> aid then assignment
          else assignment\<lparr>submissions := grade_in_submissions sid g fb (submissions assignment)\<rparr>)
      prevAssignments"

text \<open>The body of an error reply of the \<open>PATCH\<close> request.\<close>

record ErrorBody =
  error_detail :: "string option"

text \<open>
  \<open>handleGradeSubmission\<close>, given the reply to the \<open>PATCH .../grade\<close> request. Without a
  selected submission or assignment it returns at once. Otherwise it applies the
  optimistic update and closes the dialog; when the request throws or the response is not
  \<open>ok\<close> (the handler then throws itself) the \<open>catch\<close> block puts the saved list back. The
  toasts are not part of the state.
\<close>

definition save_failed :: "ErrorBody Response awaited \<Rightarrow> bool" where
  "save_failed reply = (case reply of Throws m \<Rightarrow> True | Returns response \<Rightarrow> \<not> ok response)"

definition handleGradeSubmission :: "ErrorBody Response awaited \<Rightarrow> GradingState \<Rightarrow> GradingState" where
  "handleGradeSubmission reply st =
    (case (selectedSubmission st, selectedAssignmentForDetail st) of
       (Some sel_sub, Some sel_asg) \<Rightarrow>
        (let originalAssignments = assignments st;
             st1 = st\<lparr>assignments := optimistic_update (assignment_id sel_asg) (submission_id sel_sub)
                                      (grade st) (feedback_input st) (assignments st),
                     showGradeDialog := False\<rparr>
         in if save_failed reply then st1\<lparr>assignments := originalAssignments\<rparr> else st1)
     | _ \<Rightarrow> st)"

text \<open>
  The \<open>onChange\<close> handler of the grade input, \<open>setGrade(parseInt(e.target.value) || 0)\<close>.
  Its argument is the result of \<open>parseInt\<close>: \<open>None\<close> for \<open>NaN\<close>. The attributes \<open>min={0}\<close> and
  \<open>max={max_marks}\<close> of the input do not take part in it.
\<close>

definition grade_onChange :: "int option \<Rightarrow> GradingState \<Rightarrow> GradingState" where
  "grade_onChange parsed st =
    st\<lparr>grade := (case parsed of None \<Rightarrow> 0 | Some n \<Rightarrow> if n = 0 then 0 else n)\<rparr>"




text \<open>A page with two assignments; the first has two submissions, none graded yet.\<close>

definition example_user :: "int \<Rightarrow> string \<Rightarrow> User" where
  "example_user i r = \<lparr>user_id = i, user_email = ''u@college.edu'', user_role = r\<rparr>"

definition example_submission :: "int \<Rightarrow> Submission" where
  "example_submission i =
    \<lparr>submission_id = i,
     submission_student = \<lparr>stu_id = i, stu_name = ''S'', stu_roll_number = None,
                           stu_user = example_user i ''student''\<rparr>,
     submitted_at = ''2025-01-01T10:00:00'',
     submission_status = ''submitted'',
     marks = None, feedback = None, file_path = None\<rparr>"

definition example_assignment :: "int \<Rightarrow> Submission list \<Rightarrow> Assignment" where
  "example_assignment i subs =
    \<lparr>assignment_id = i, title = ''A'', description = None,
     assignment_subject = \<lparr>subject_id = 1, subject_name = ''Maths'',
        subject_department = \<lparr>department_id = 1, department_name = ''CS''\<rparr>, subject_year = ''SY''\<rparr>,
     assignment_division = \<lparr>division_id = 1, division_name = ''A'',
        division_department = \<lparr>department_id = 1, department_name = ''CS''\<rparr>\<rparr>,
     assignment_batch = None,
     deadline = ''2025-01-02T10:00:00'', created_at = ''2024-12-01T10:00:00'',
     max_marks = 100, instructions = None, assignment_status = published,
     assignment_teacher = \<lparr>teacher_id = 1, teacher_name = ''T'', teacher_user = example_user 9 ''teacher''\<rparr>,
     assignment_type = ''Home Assignment'',
     submissions = subs,
     assignment_file_path = None, solution_file_path = None\<rparr>"

definition example_page :: GradingState where
  "example_page =
    \<lparr>assignments = [example_assignment 1 [example_submission 10, example_submission 11],
                    example_assignment 2 [example_submission 10]],
     selectedAssignmentForDetail = Some (example_assignment 1 [example_submission 10, example_submission 11]),
     showGradeDialog = True,
     selectedSubmission = Some (example_submission 10),
     grade = 0, feedback_input = []\<rparr>"

definition saved :: "ErrorBody Response awaited" where
  "saved = Returns \<lparr>ok = True, json = Returns \<lparr>error_detail = None\<rparr>\<rparr>"

subsection \<open>Frame of the optimistic update\<close>

text \<open>
  What the update leaves alone, position by position: an assignment with another id is
  the same object; the selected one differs at most in \<open>submissions\<close>, where a submission
  with another id is the same and the selected one differs at most in \<open>marks\<close> and
  \<open>feedback\<close>.
\<close>

definition submission_frame :: "int \<Rightarrow> Submission \<Rightarrow> Submission \<Rightarrow> bool" where
  "submission_frame sid sub sub' =
    (if submission_id sub \<noteq> sid then sub' = sub
     else sub'\<lparr>marks := marks sub, feedback := feedback sub\<rparr> = sub)"

definition assignment_frame :: "int \<Rightarrow> int \<Rightarrow> Assignment \<Rightarrow> Assignment \<Rightarrow> bool" where
  "assignment_frame aid sid a a' =
    (if assignment_id a \<noteq> aid then a' = a
     else a'\<lparr>submissions := submissions a\<rparr> = a \<and>
          length (submissions a') = length (submissions a) \<and>
          (\<forall>j < length (submissions a). submission_frame sid (submissions a ! j) (submissions a' ! j)))"

definition assignments_frame :: "int \<Rightarrow> int \<Rightarrow> Assignment list \<Rightarrow> Assignment list \<Rightarrow> bool" where
  "assignments_frame aid sid as as' =
    (length as' = length as \<and> (\<forall>i < length as. assignment_frame aid sid (as ! i) (as' ! i)))"

lemma submission_frame_refl: "submission_frame sid sub sub"
  by (simp add: submission_frame_def)

lemma assignments_frame_refl: "assignments_frame aid sid as as"
  by (simp add: assignments_frame_def assignment_frame_def submission_frame_refl)

lemma grade_in_submissions_frame:
  "j < length subs \<Longrightarrow> submission_frame sid (subs ! j) (grade_in_submissions sid g fb subs ! j)"
  by (simp add: submission_frame_def grade_in_submissions_def)

lemma grade_in_submissions_length: "length (grade_in_submissions sid g fb subs) = length subs"
  by (simp add: grade_in_submissions_def)

lemma optimistic_update_frame:
  "assignments_frame aid sid prev (optimistic_update aid sid g fb prev)"
  by (simp add: assignments_frame_def assignment_frame_def optimistic_update_def
      grade_in_submissions_frame grade_in_submissions_length)

lemma optimistic_update_writes:
  assumes "i < length prev" and "assignment_id (prev ! i) = aid"
    and "j < length (submissions (prev ! i))"
    and "submission_id (submissions (prev ! i) ! j) = sid"
  shows "marks (submissions (optimistic_update aid sid g fb prev ! i) ! j) = Some (of_int g) \<and>
         feedback (submissions (optimistic_update aid sid g fb prev ! i) ! j) = Some fb"
  using assms by (simp add: optimistic_update_def grade_in_submissions_def)

text \<open>
  Claim C10. The optimistic update of \<open>handleGradeSubmission\<close> changes only the \<open>marks\<close> and
  \<open>feedback\<close> of the selected submission inside the selected assignment: every other
  submission of that assignment, every other assignment and every other field of the
  updated submission and assignment are as before. This holds of the state the handler
  ends in whatever the server replies; when the save does not fail, the selected
  submission holds the grade and the feedback of the dialog.
\<close>

theorem handleGradeSubmission_frame:
  assumes "selectedSubmission st = Some sel_sub"
    and "selectedAssignmentForDetail st = Some sel_asg"
  shows "assignments_frame (assignment_id sel_asg) (submission_id sel_sub)
           (assignments st) (assignments (handleGradeSubmission reply st)) \<and>
         (\<not> save_failed reply \<longrightarrow>
            assignments (handleGradeSubmission reply st) =
              optimistic_update (assignment_id sel_asg) (submission_id sel_sub)
                (grade st) (feedback_input st) (assignments st)) \<and>
         (\<forall>i j. \<not> save_failed reply \<and> i < length (assignments st) \<and>
            assignment_id (assignments st ! i) = assignment_id sel_asg \<and>
            j < length (submissions (assignments st ! i)) \<and>
            submission_id (submissions (assignments st ! i) ! j) = submission_id sel_sub \<longrightarrow>
            marks (submissions (assignments (handleGradeSubmission reply st) ! i) ! j)
              = Some (of_int (grade st)) \<and>
            feedback (submissions (assignments (handleGradeSubmission reply st) ! i) ! j)
              = Some (feedback_input st))"
proof (cases "save_failed reply")
  case True
  with assms have "assignments (handleGradeSubmission reply st) = assignments st"
    by (simp add: handleGradeSubmission_def Let_def)
  with True show ?thesis by (simp add: assignments_frame_refl)
next
  case False
  with assms have eq: "assignments (handleGradeSubmission reply st) =
      optimistic_update (assignment_id sel_asg) (submission_id sel_sub)
        (grade st) (feedback_input st) (assignments st)"
    by (simp add: handleGradeSubmission_def Let_def)
  show ?thesis
    unfolding eq using False
    by (simp add: optimistic_update_frame optimistic_update_writes)
qed

text \<open>
  On the example page with grade 7 and feedback "ok": submission 10 of assignment 1 is
  graded, submission 11 and assignment 2 (which also has a submission 10) are untouched.
\<close>

lemma example_graded:
  "assignments (handleGradeSubmission saved (example_page\<lparr>grade := 7, feedback_input := ''ok''\<rparr>)) =
     [example_assignment 1 [(example_submission 10)\<lparr>marks := Some 7, feedback := Some ''ok''\<rparr>,
                            example_submission 11],
      example_assignment 2 [example_submission 10]]"
  by (simp add: handleGradeSubmission_def Let_def example_page_def saved_def save_failed_def
      optimistic_update_def grade_in_submissions_def example_assignment_def example_submission_def)

theorem handleGradeSubmission_frame_witness:
  "assignments_frame 1 10
     [example_assignment 1 [example_submission 10, example_submission 11],
      example_assignment 2 [example_submission 10]]
     [example_assignment 1 [(example_submission 10)\<lparr>marks := Some 7, feedback := Some ''ok''\<rparr>,
                            example_submission 11],
      example_assignment 2 [example_submission 10]]"
proof -
  let ?st = "example_page\<lparr>grade := 7, feedback_input := ''ok''\<rparr>"
  have s: "selectedSubmission ?st = Some (example_submission 10)"
    and a: "selectedAssignmentForDetail ?st =
      Some (example_assignment 1 [example_submission 10, example_submission 11])"
    by (simp_all add: example_page_def)
  have ids: "assignment_id (example_assignment 1 [example_submission 10, example_submission 11]) = 1"
    "submission_id (example_submission 10) = 10"
    by (simp_all add: example_assignment_def example_submission_def)
  have as: "assignments ?st = [example_assignment 1 [example_submission 10, example_submission 11],
      example_assignment 2 [example_submission 10]]"
    by (simp add: example_page_def)
  from handleGradeSubmission_frame[OF s a, of saved, THEN conjunct1]
  show ?thesis
    unfolding example_graded ids as .
qed

subsection \<open>The range of a recorded grade\<close>

text \<open>
  Claim C1, the part on the grade that grading records. The grade input declares
  \<open>min={0}\<close> and \<open>max={max_marks}\<close>, but neither \<open>onChange\<close> nor \<open>handleGradeSubmission\<close>
  checks the range: on the example page (\<open>max_marks = 100\<close>) a typed 150 is recorded as the
  mark of submission 10, and so is a typed -5.
\<close>

theorem handleGradeSubmission_out_of_range:
  "marks (submissions (assignments
      (handleGradeSubmission saved (grade_onChange (Some 150) example_page)) ! 0) ! 0) = Some 150 \<and>
   marks (submissions (assignments
      (handleGradeSubmission saved (grade_onChange (Some (- 5)) example_page)) ! 0) ! 0) = Some (- 5) \<and>
   max_marks (assignments
      (handleGradeSubmission saved (grade_onChange (Some 150) example_page)) ! 0) = 100 \<and>
   real_of_int 100 < 150 \<and> (- 5 :: real) < 0"
  by (simp add: handleGradeSubmission_def grade_onChange_def Let_def example_page_def saved_def
      save_failed_def optimistic_update_def grade_in_submissions_def example_assignment_def
      example_submission_def)

subsection \<open>How an ungraded submission is shown\<close>










section \<open>The scoring pipeline of the specification\<close>

text \<open>
  The similarity and auto-grading service is not among the sources of the web
  application; the page above only receives its result as \<open>marks\<close>. Its pure functions
  are modelled here from the specification, over the real numbers.
\<close>

text \<open>
  Modelled from the spec: the label of the entailment classifier (section 4.4), missing
  from the sources.
\<close>

datatype entailment_label = entailment | neutral | contradiction

text \<open>
  Modelled from the spec: the default weight \<open>w1 = 0.4\<close> of the encoder term of the blend
  (section 4.5, step 2), missing from the sources.
\<close>

definition w1 :: real where
  "w1 = 4 / 10"

text \<open>
  Modelled from the spec: the default weight \<open>w2 = 0.6\<close> of the cross-encoder term of the
  blend (section 4.5, step 2), missing from the sources.
\<close>

definition w2 :: real where
  "w2 = 6 / 10"

text \<open>
  Modelled from the spec: the default penalty factor \<open>0.5\<close> applied on a contradiction
  (section 4.5, step 3), missing from the sources.
\<close>

definition penalty_factor :: real where
  "penalty_factor = 1 / 2"

text \<open>
  Modelled from the spec: "clamped to [0, max_marks]" (section 4.5, step 4), missing from
  the sources.
\<close>

definition clamp_grade :: "int \<Rightarrow> int \<Rightarrow> int" where
  "clamp_grade marks_max g = max 0 (min marks_max g)"

text \<open>
  Modelled from the spec: \<open>fuse\<close> (section 4.5), missing from the sources. Step 1 maps the
  cosine to \<open>[0,1]\<close>, step 2 blends, step 3 multiplies by the penalty on a contradiction
  whatever the confidence, step 4 rounds \<open>blend * max_marks\<close> and clamps.
\<close>

definition fuse :: "real \<Rightarrow> real \<Rightarrow> entailment_label \<Rightarrow> real \<Rightarrow> int \<Rightarrow> int" where
  "fuse encoder_cosine cross_encoder_score label confidence marks_max =
    (let encoder_norm = (encoder_cosine + 1) / 2;
         blend = w1 * encoder_norm + w2 * cross_encoder_score;
         adjusted = (if label = contradiction then blend * penalty_factor else blend)
     in clamp_grade marks_max (round (adjusted * of_int marks_max)))"

lemma clamp_grade_mono: "a \<le> b \<Longrightarrow> clamp_grade m a \<le> clamp_grade m b"
  by (simp add: clamp_grade_def max_def min_def)

lemma clamp_grade_range: "0 \<le> m \<Longrightarrow> 0 \<le> clamp_grade m g \<and> clamp_grade m g \<le> m"
  by (simp add: clamp_grade_def)

lemma clamp_grade_negative_max: "m < 0 \<Longrightarrow> clamp_grade m g = 0"
  by (simp add: clamp_grade_def)

lemma fuse_in_range:
  "0 \<le> marks_max \<Longrightarrow>
     0 \<le> fuse c x l conf marks_max \<and> fuse c x l conf marks_max \<le> marks_max"
  by (simp add: fuse_def Let_def clamp_grade_range)

lemma blend_nonneg:
  assumes "- 1 \<le> c" and "0 \<le> x"
  shows "0 \<le> w1 * ((c + 1) / 2) + w2 * x"
  using assms by (simp add: w1_def w2_def)

text \<open>
  Claim C2. For an encoder cosine in \<open>[-1,1]\<close>, a cross-encoder score in \<open>[0,1]\<close> and any
  confidence and maximum, the grade fused with the label contradiction is at most the
  grade fused from the same inputs with the label neutral.
\<close>

theorem fuse_contradiction_le_neutral:
  assumes "- 1 \<le> c" and "c \<le> 1" and "0 \<le> x" and "x \<le> 1"
  shows "fuse c x contradiction conf marks_max \<le> fuse c x neutral conf marks_max"
proof (cases "0 \<le> marks_max")
  case True
  let ?blend = "w1 * ((c + 1) / 2) + w2 * x"
  have b: "0 \<le> ?blend" using assms by (rule_tac blend_nonneg)
  have "?blend * penalty_factor \<le> ?blend"
    using b by (simp add: penalty_factor_def)
  then have "?blend * penalty_factor * of_int marks_max \<le> ?blend * of_int marks_max"
    using True by (simp add: mult_right_mono)
  then have "round (?blend * penalty_factor * of_int marks_max) \<le> round (?blend * of_int marks_max)"
    by (rule round_mono)
  then show ?thesis
    by (simp add: fuse_def Let_def clamp_grade_mono)
next
  case False
  then show ?thesis
    by (simp add: fuse_def Let_def clamp_grade_negative_max)
qed

text \<open>
  With a cross-encoder score of 0 the blend still holds the encoder term: a cosine of 0
  and a maximum of 100 fuse to 20.
\<close>

lemma fuse_zero_cross_score: "fuse 0 0 neutral conf 100 = 20"
  by (simp add: fuse_def Let_def w1_def w2_def clamp_grade_def)

text \<open>The third scenario of the specification, with an encoder cosine of 0.\<close>

lemma fuse_example_contradiction: "fuse 0 (7 / 10) contradiction (9 / 10) 100 = 31"
  by (simp add: fuse_def Let_def w1_def w2_def penalty_factor_def clamp_grade_def)

lemma fuse_example_neutral: "fuse 0 (7 / 10) neutral (9 / 10) 100 = 62"
  by (simp add: fuse_def Let_def w1_def w2_def penalty_factor_def clamp_grade_def)

theorem fuse_contradiction_le_neutral_witness:
  "- 1 \<le> (0::real) \<and> (0::real) \<le> 1 \<and> (0::real) \<le> 7 / 10 \<and> (7 / 10 :: real) \<le> 1 \<and>
   fuse 0 (7 / 10) contradiction (9 / 10) 100 = 31 \<and>
   fuse 0 (7 / 10) neutral (9 / 10) 100 = 62 \<and>
   (31::int) \<le> 62"
proof -
  have h: "- 1 \<le> (0::real)" "(0::real) \<le> 1" "(0::real) \<le> 7 / 10" "(7 / 10 :: real) \<le> 1"
    by simp_all
  from fuse_contradiction_le_neutral[OF h, of "9 / 10" 100]
  have "(31::int) \<le> 62" unfolding fuse_example_contradiction fuse_example_neutral .
  with h fuse_example_contradiction fuse_example_neutral show ?thesis by simp
qed

subsection \<open>Cosine similarity\<close>

text \<open>
  Modelled from the spec: the inner product \<open>u\<cdot>v\<close> of the cosine formula (section 4.2),
  missing from the sources. A vector is a list of reals; the sum runs over the common
  positions.
\<close>

definition dot :: "real list \<Rightarrow> real list \<Rightarrow> real" where
  "dot u v = sum_list (map (\<lambda>(a, b). a * b) (zip u v))"

text \<open>
  Modelled from the spec: the magnitude \<open>||v||\<close> of the cosine formula (section 4.2), missing
  from the sources.
\<close>

definition magnitude :: "real list \<Rightarrow> real" where
  "magnitude v = sqrt (dot v v)"

text \<open>
  Modelled from the spec: \<open>cosine(u, v) = (u\<cdot>v) / (||u|| * ||v||)\<close>, defined as 0 when either
  vector has zero magnitude (section 4.2), missing from the sources.
\<close>

definition cosine :: "real list \<Rightarrow> real list \<Rightarrow> real" where
  "cosine u v =
    (if magnitude u = 0 \<or> magnitude v = 0 then 0
     else dot u v / (magnitude u * magnitude v))"

lemma dot_self: "dot v v = sum_list (map (\<lambda>a. a * a) v)"
  by (induction v) (simp_all add: dot_def)

lemma dot_self_nonneg: "0 \<le> dot v v"
  unfolding dot_self by (induction v) simp_all

lemma dot_self_zero_iff: "dot v v = 0 \<longleftrightarrow> (\<forall>a \<in> set v. a = 0)"
proof (induction v)
  case Nil
  show ?case by (simp add: dot_def)
next
  case (Cons a v)
  have n: "0 \<le> dot v v" by (rule dot_self_nonneg)
  have "dot (a # v) (a # v) = a * a + dot v v" by (simp add: dot_def)
  moreover have "a * a + dot v v = 0 \<longleftrightarrow> a = 0 \<and> dot v v = 0"
    using n by (simp add: add_nonneg_eq_0_iff)
  ultimately show ?case using Cons.IH by simp
qed

lemma magnitude_zero_iff: "magnitude v = 0 \<longleftrightarrow> (\<forall>a \<in> set v. a = 0)"
  by (simp add: magnitude_def dot_self_zero_iff)

lemma dot_commute: "dot u v = dot v u"
proof -
  have "map (\<lambda>(a, b). a * b) (zip u v) = map (\<lambda>(a, b). a * b) (zip v u)"
  proof (induction u arbitrary: v)
    case Nil
    show ?case by simp
  next
    case (Cons a u)
    show ?case by (cases v) (simp_all add: Cons.IH mult.commute)
  qed
  then show ?thesis by (simp add: dot_def)
qed

lemma cosine_commute: "cosine u v = cosine v u"
  by (simp add: cosine_def dot_commute[of u v] mult.commute disj_commute)

lemma cosine_self:
  assumes "\<exists>a \<in> set v. a \<noteq> 0"
  shows "cosine v v = 1"
proof -
  from assms have nz: "magnitude v \<noteq> 0" by (simp add: magnitude_zero_iff)
  have "magnitude v * magnitude v = dot v v"
    by (simp add: magnitude_def dot_self_nonneg)
  moreover from nz have "dot v v \<noteq> 0" by (simp add: magnitude_def)
  ultimately show ?thesis using nz by (simp add: cosine_def)
qed

text \<open>
  Claim C3. \<open>cosine\<close> is a total function that computes \<open>(u\<cdot>v) / (||u|| * ||v||)\<close>; for a
  vector \<open>v\<close> with a nonzero component \<open>cosine(v, v) = 1\<close>; and when either argument has
  zero magnitude (the zero vector of any length, for one) it returns 0.
\<close>

theorem cosine_correct:
  "((\<exists>a \<in> set v. a \<noteq> 0) \<longrightarrow> cosine v v = 1) \<and>
   (magnitude u = 0 \<or> magnitude w = 0 \<longrightarrow> cosine u w = 0) \<and>
   cosine u (replicate n 0) = 0 \<and>
   (magnitude u \<noteq> 0 \<and> magnitude w \<noteq> 0 \<longrightarrow>
      cosine u w = dot u w / (magnitude u * magnitude w))"
proof (intro conjI impI)
  assume "\<exists>a \<in> set v. a \<noteq> 0"
  then show "cosine v v = 1" by (rule cosine_self)
next
  assume "magnitude u = 0 \<or> magnitude w = 0"
  then show "cosine u w = 0" by (auto simp: cosine_def)
next
  have "magnitude (replicate n 0) = 0" by (simp add: magnitude_zero_iff)
  then show "cosine u (replicate n 0) = 0" by (simp add: cosine_def)
next
  assume "magnitude u \<noteq> 0 \<and> magnitude w \<noteq> 0"
  then show "cosine u w = dot u w / (magnitude u * magnitude w)" by (simp add: cosine_def)
qed

theorem cosine_correct_witness:
  "(\<exists>a \<in> set [3, 4 :: real]. a \<noteq> 0) \<and> cosine [3, 4] [3, 4] = 1 \<and>
   magnitude [0, 0] = 0 \<and> cosine [3, 4] [0, 0] = 0 \<and>
   magnitude [3, 4] = 5 \<and> magnitude [4, 3] = 5 \<and> cosine [3, 4] [4, 3] = 24 / 25"
proof -
  have nz: "\<exists>a \<in> set [3, 4 :: real]. a \<noteq> 0" by simp
  have z: "magnitude [0, 0] = 0" by (simp add: magnitude_zero_iff)
  have s: "sqrt 25 = 5" using real_sqrt_abs[of 5] by simp
  have m1: "magnitude [3, 4] = 5" by (simp add: magnitude_def dot_def s)
  have m2: "magnitude [4, 3] = 5" by (simp add: magnitude_def dot_def s)
  have d: "dot [3, 4] [4, 3] = 24" by (simp add: dot_def)
  have nm: "magnitude [3, 4] \<noteq> 0 \<and> magnitude [4, 3] \<noteq> 0" by (simp add: m1 m2)
  note c = cosine_correct[of "[3, 4]" "[3, 4]" "[0, 0]" 2]
  note c' = cosine_correct[of "[3, 4]" "[3, 4]" "[4, 3]" 2]
  note one = c[THEN conjunct1, THEN mp, OF nz]
  note two = c[THEN conjunct2, THEN conjunct1, THEN mp, OF disjI2, OF z]
  from c'[THEN conjunct2, THEN conjunct2, THEN conjunct2, THEN mp, OF nm]
  have three: "cosine [3, 4] [4, 3] = 24 / 25" by (simp add: m1 m2 d)
  show ?thesis by (intro conjI nz one z two m1 m2 three)
qed

end
